theory Spec2Isabelle
  imports Main "HOL-Library.Word"
begin

section \<open>The sample driver of the infrared temperature parser SDK\<close>

text \<open>
  The repository's only source file is \<^verbatim>\<open>main.cpp\<close>, a driver of about twenty lines:
  \<^verbatim>\<open>
  int main(int argc, char *argv[])
  {
      const char *filePath = "../test/IRX_0001_south.jpg";

      TempStatInfo statInfo;
      std::map<std::string, Autel_IR_INFO_S> mapIrInfo;
      std::vector<std::vector<float>> vecTempArray;
      if (0 == GetIrPhotoTempInfo(filePath, 640, 512, statInfo, mapIrInfo, vecTempArray))
      {
          printf("parse ok.\r\n");
      }
      else
      {
          printf("parse fail.\r\n");
      }
      return 0;
  }
  \<close>
  The header \<^verbatim>\<open>Autel_IrTempParser.h\<close> and the library behind \<^verbatim>\<open>GetIrPhotoTempInfo\<close>
  are not part of the source. The types they declare are type parameters of the
  model, and the function is a parameter of \<open>main\<close>: every result below holds for
  whatever the library does, as long as the call returns.
\<close>

subsection \<open>Data\<close>

text \<open>A C++ \<^verbatim>\<open>int\<close> of the target: 32 bits, read as two's complement by \<open>sint\<close>.\<close>

type_synonym c_int = "32 word"

text \<open>
  The three local variables that \<open>main\<close> hands to the library. \<^verbatim>\<open>TempStatInfo\<close>
  is \<open>'stat\<close>, \<^verbatim>\<open>Autel_IR_INFO_S\<close> is \<open>'info\<close>, \<^verbatim>\<open>float\<close> is \<open>'temp\<close>; the
  \<^verbatim>\<open>std::map\<close> is a partial function on strings and the nested \<^verbatim>\<open>std::vector\<close>
  a list of lists.
\<close>

record ('stat, 'info, 'temp) receivers =
  statInfo :: 'stat
  mapIrInfo :: "string \<rightharpoonup> 'info"
  vecTempArray :: "'temp list list"

text \<open>
  What a run does to its surroundings, in order: a call of the library function, with
  the arguments it was given, and a write to standard output, with the characters
  written.
\<close>

datatype ('stat, 'info, 'temp) event =
    is_Call: Call string c_int c_int "('stat, 'info, 'temp) receivers"
  | is_Stdout: Stdout string

text \<open>
  The state of the process: the events so far and the world outside the program
  (the file system the library reads, and whatever state the library keeps), of
  an arbitrary type \<open>'w\<close>.
\<close>

record ('stat, 'info, 'temp, 'w) process =
  events :: "('stat, 'info, 'temp) event list"
  world :: 'w

text \<open>
  The library function, as \<open>main\<close> sees it: from the path, the two dimensions, the
  three receivers and the world to a status, the receivers as it left them and the
  world as it left it.
\<close>

type_synonym ('stat, 'info, 'temp, 'w) parser =
  "string \<Rightarrow> c_int \<Rightarrow> c_int \<Rightarrow> ('stat, 'info, 'temp) receivers \<Rightarrow> 'w
    \<Rightarrow> c_int \<times> ('stat, 'info, 'temp) receivers \<times> 'w"

subsection \<open>Operations\<close>

text \<open>
  \<^verbatim>\<open>printf\<close> with a format string that has no conversion specification and no
  further argument (the two calls of \<open>main\<close> are of this form): the characters of
  the format go to the standard output stream as they are. What the stream does to
  them on the way to the terminal or the file is outside the program.
\<close>

definition printf ::
  "string \<Rightarrow> ('stat, 'info, 'temp, 'w) process \<Rightarrow> ('stat, 'info, 'temp, 'w) process" where
  "printf fmt p = p\<lparr>events := events p @ [Stdout fmt]\<rparr>"

text \<open>
  A call of the library function: the call is recorded with its arguments, the
  function runs on the current world, and its status, the receivers and the new
  world come back.
\<close>

definition call_GetIrPhotoTempInfo ::
  "('stat, 'info, 'temp, 'w) parser \<Rightarrow> string \<Rightarrow> c_int \<Rightarrow> c_int
    \<Rightarrow> ('stat, 'info, 'temp) receivers \<Rightarrow> ('stat, 'info, 'temp, 'w) process
    \<Rightarrow> c_int \<times> ('stat, 'info, 'temp) receivers \<times> ('stat, 'info, 'temp, 'w) process" where
  "call_GetIrPhotoTempInfo GetIrPhotoTempInfo path width height recv p =
     (case GetIrPhotoTempInfo path width height recv (world p) of
        (status, recv', w') \<Rightarrow>
          (status, recv', p\<lparr>events := events p @ [Call path width height recv], world := w'\<rparr>))"

text \<open>
  \<open>main\<close>. Its parameters are the library function, the value \<open>uninit\<close> that the
  default-initialised \<^verbatim>\<open>statInfo\<close> holds before the call, \<^verbatim>\<open>argc\<close> and
  \<^verbatim>\<open>argv\<close>, and the world at program start. It returns the exit code and the
  final state of the process.
\<close>

definition main ::
  "('stat, 'info, 'temp, 'w) parser \<Rightarrow> 'stat \<Rightarrow> c_int \<Rightarrow> string list \<Rightarrow> 'w
    \<Rightarrow> c_int \<times> ('stat, 'info, 'temp, 'w) process" where
  "main GetIrPhotoTempInfo uninit argc argv w =
     (let filePath = ''../test/IRX_0001_south.jpg'';
          recv = \<lparr>statInfo = uninit, mapIrInfo = Map.empty, vecTempArray = []\<rparr>;
          p0 = \<lparr>events = [], world = w\<rparr>
      in case call_GetIrPhotoTempInfo GetIrPhotoTempInfo filePath 640 512 recv p0 of
           (status, recv', p1) \<Rightarrow>
             (let p2 = (if 0 = status
                        then printf (''parse ok.'' @ [CHR 0x0D, CHR 0x0A]) p1
                        else printf (''parse fail.'' @ [CHR 0x0D, CHR 0x0A]) p1)
              in (0, p2)))"

subsection \<open>Observations of a run\<close>

text \<open>The characters on standard output: the writes of the run, in order.\<close>

fun stdout_of :: "('stat, 'info, 'temp) event list \<Rightarrow> string" where
  "stdout_of [] = []"
| "stdout_of (Stdout s # es) = s @ stdout_of es"
| "stdout_of (Call path width height recv # es) = stdout_of es"

text \<open>
  A stand-in for the library, for concrete runs: it returns the status \<open>rc\<close> and
  leaves \<open>stored\<close> in the receivers, whatever it is called with.
\<close>

definition stub_parser ::
  "c_int \<Rightarrow> (int, int, int) receivers \<Rightarrow> (int, int, int, unit) parser" where
  "stub_parser rc stored = (\<lambda>path width height recv w. (rc, stored, w))"

section \<open>Results\<close>

lemma main_unfold:
  "main P uninit argc argv w =
     (0, \<lparr>events =
            [Call ''../test/IRX_0001_south.jpg'' 640 512
               \<lparr>statInfo = uninit, mapIrInfo = Map.empty, vecTempArray = []\<rparr>,
             Stdout (if fst (P ''../test/IRX_0001_south.jpg'' 640 512
                               \<lparr>statInfo = uninit, mapIrInfo = Map.empty, vecTempArray = []\<rparr> w) = 0
                     then ''parse ok.'' @ [CHR 0x0D, CHR 0x0A]
                     else ''parse fail.'' @ [CHR 0x0D, CHR 0x0A])],
          world = snd (snd (P ''../test/IRX_0001_south.jpg'' 640 512
                               \<lparr>statInfo = uninit, mapIrInfo = Map.empty, vecTempArray = []\<rparr> w))\<rparr>)"
  by (simp add: main_def call_GetIrPhotoTempInfo_def printf_def Let_def split_beta)

text \<open>
  C1. In every run in which the call of the library function returns status 0, the
  driver writes the characters \<open>parse ok.\<close>, a carriage return and a line feed to
  standard output, in a single write, and nothing else: the output is one line.
\<close>

theorem main_success_token:
  assumes "fst (P ''../test/IRX_0001_south.jpg'' 640 512
                  \<lparr>statInfo = uninit, mapIrInfo = Map.empty, vecTempArray = []\<rparr> w) = 0"
  shows "stdout_of (events (snd (main P uninit argc argv w)))
           = ''parse ok.'' @ [CHR 0x0D, CHR 0x0A]
       \<and> filter is_Stdout (events (snd (main P uninit argc argv w)))
           = [Stdout (''parse ok.'' @ [CHR 0x0D, CHR 0x0A])]
       \<and> count_list (stdout_of (events (snd (main P uninit argc argv w)))) (CHR 0x0A) = 1"
  using assms by (simp add: main_unfold)

theorem main_success_token_witness:
  "fst (stub_parser 0 \<lparr>statInfo = 21, mapIrInfo = Map.empty, vecTempArray = [[20, 22]]\<rparr>
          ''../test/IRX_0001_south.jpg'' 640 512
          \<lparr>statInfo = 0, mapIrInfo = Map.empty, vecTempArray = []\<rparr> ()) = 0
   \<and> stdout_of (events (snd (main
          (stub_parser 0 \<lparr>statInfo = 21, mapIrInfo = Map.empty, vecTempArray = [[20, 22]]\<rparr>)
          0 1 [''sample.exe''] ())))
       = ''parse ok.'' @ [CHR 0x0D, CHR 0x0A]"
  using main_success_token
    [of "stub_parser 0 \<lparr>statInfo = 21, mapIrInfo = Map.empty, vecTempArray = [[20, 22]]\<rparr>"
        0 "()" 1 "[''sample.exe'']"]
  by (simp add: stub_parser_def)

text \<open>
  C2. In every run in which the call of the library function returns a status other
  than 0, the driver writes the characters \<open>parse fail.\<close>, a carriage return and a
  line feed to standard output, in a single write, and nothing else; and the run does
  not depend on the three receivers: whatever the library leaves in them (\<open>left\<close>),
  with the same status and the same world, the exit code and the final state of the
  process are the same.
\<close>

theorem main_failure_silence:
  assumes "fst (P ''../test/IRX_0001_south.jpg'' 640 512
                  \<lparr>statInfo = uninit, mapIrInfo = Map.empty, vecTempArray = []\<rparr> w) \<noteq> 0"
  shows "stdout_of (events (snd (main P uninit argc argv w)))
           = ''parse fail.'' @ [CHR 0x0D, CHR 0x0A]
       \<and> filter is_Stdout (events (snd (main P uninit argc argv w)))
           = [Stdout (''parse fail.'' @ [CHR 0x0D, CHR 0x0A])]
       \<and> count_list (stdout_of (events (snd (main P uninit argc argv w)))) (CHR 0x0A) = 1
       \<and> (\<forall>left.
            main (\<lambda>path width height recv wd.
                    (fst (P path width height recv wd), left,
                     snd (snd (P path width height recv wd))))
              uninit argc argv w
            = main P uninit argc argv w)"
  using assms by (simp add: main_unfold)

theorem main_failure_silence_witness:
  "fst (stub_parser 3 \<lparr>statInfo = 21, mapIrInfo = Map.empty, vecTempArray = [[20, 22]]\<rparr>
          ''../test/IRX_0001_south.jpg'' 640 512
          \<lparr>statInfo = 0, mapIrInfo = Map.empty, vecTempArray = []\<rparr> ()) \<noteq> 0
   \<and> stdout_of (events (snd (main
          (stub_parser 3 \<lparr>statInfo = 21, mapIrInfo = Map.empty, vecTempArray = [[20, 22]]\<rparr>)
          0 1 [''sample.exe''] ())))
       = ''parse fail.'' @ [CHR 0x0D, CHR 0x0A]
   \<and> main (stub_parser 3 \<lparr>statInfo = 7, mapIrInfo = Map.empty, vecTempArray = []\<rparr>)
          0 1 [''sample.exe''] ()
       = main (stub_parser 3 \<lparr>statInfo = 21, mapIrInfo = Map.empty, vecTempArray = [[20, 22]]\<rparr>)
          0 1 [''sample.exe''] ()"
  using main_failure_silence
    [of "stub_parser 3 \<lparr>statInfo = 21, mapIrInfo = Map.empty, vecTempArray = [[20, 22]]\<rparr>"
        0 "()" 1 "[''sample.exe'']"]
  by (simp add: stub_parser_def)

text \<open>
  C3. The run of the driver is exactly this: with the three receivers freshly
  created (the statistics as default-initialised, the map empty, the field empty),
  one call of the library function with the path \<open>../test/IRX_0001_south.jpg\<close>,
  width 640, height 512 and the three receivers; then one write, chosen by the
  status: the success line when it is 0, the failure line otherwise. There is no
  other call of the library function, and the world is as that one call left it.
\<close>

theorem main_algorithm:
  "events (snd (main P uninit argc argv w))
     = [Call ''../test/IRX_0001_south.jpg'' 640 512
          \<lparr>statInfo = uninit, mapIrInfo = Map.empty, vecTempArray = []\<rparr>,
        Stdout (if fst (P ''../test/IRX_0001_south.jpg'' 640 512
                          \<lparr>statInfo = uninit, mapIrInfo = Map.empty, vecTempArray = []\<rparr> w) = 0
                then ''parse ok.'' @ [CHR 0x0D, CHR 0x0A]
                else ''parse fail.'' @ [CHR 0x0D, CHR 0x0A])]
   \<and> filter is_Call (events (snd (main P uninit argc argv w)))
     = [Call ''../test/IRX_0001_south.jpg'' 640 512
          \<lparr>statInfo = uninit, mapIrInfo = Map.empty, vecTempArray = []\<rparr>]
   \<and> world (snd (main P uninit argc argv w))
     = snd (snd (P ''../test/IRX_0001_south.jpg'' 640 512
                   \<lparr>statInfo = uninit, mapIrInfo = Map.empty, vecTempArray = []\<rparr> w))"
  by (simp add: main_unfold)

text \<open>
  C4. The exit code is 0 in every run, whatever status the call of the library
  function returns.
\<close>

theorem main_exit_code_zero:
  "fst (main P uninit argc argv w) = 0"
  by (simp add: main_unfold)

text \<open>
  C8. Two runs that differ only in \<^verbatim>\<open>argc\<close> and \<^verbatim>\<open>argv\<close> have the same exit code
  and the same final state: the same call of the library function with the same
  arguments, and the same standard output.
\<close>

theorem main_ignores_arguments:
  "main P uninit argc argv w = main P uninit argc' argv' w"
  by (simp add: main_unfold)

text \<open>
  C9. The standard output and the exit code of a run are determined by the status
  that the call of the library function returns: two runs in which the call returns
  the same status have the same standard output and the same exit code, whatever
  the library (\<open>P\<close> in one run, \<open>Q\<close> in the other) leaves in the receivers, and
  also whatever the world, the arguments and the initial statistics are.
\<close>

theorem main_output_function_of_status:
  assumes "fst (P ''../test/IRX_0001_south.jpg'' 640 512
                  \<lparr>statInfo = uninit, mapIrInfo = Map.empty, vecTempArray = []\<rparr> w)
         = fst (Q ''../test/IRX_0001_south.jpg'' 640 512
                  \<lparr>statInfo = uninit', mapIrInfo = Map.empty, vecTempArray = []\<rparr> w')"
  shows "stdout_of (events (snd (main P uninit argc argv w)))
           = stdout_of (events (snd (main Q uninit' argc' argv' w')))
       \<and> fst (main P uninit argc argv w) = fst (main Q uninit' argc' argv' w')"
  using assms by (simp add: main_unfold)

theorem main_output_function_of_status_witness:
  "fst (stub_parser 5 \<lparr>statInfo = 21, mapIrInfo = Map.empty, vecTempArray = [[20, 22]]\<rparr>
          ''../test/IRX_0001_south.jpg'' 640 512
          \<lparr>statInfo = 0, mapIrInfo = Map.empty, vecTempArray = []\<rparr> ())
     = fst (stub_parser 5 \<lparr>statInfo = - 4, mapIrInfo = [''Emiss'' \<mapsto> 95], vecTempArray = []\<rparr>
          ''../test/IRX_0001_south.jpg'' 640 512
          \<lparr>statInfo = 9, mapIrInfo = Map.empty, vecTempArray = []\<rparr> ())
   \<and> stdout_of (events (snd (main
          (stub_parser 5 \<lparr>statInfo = 21, mapIrInfo = Map.empty, vecTempArray = [[20, 22]]\<rparr>)
          0 1 [''sample.exe''] ())))
     = stdout_of (events (snd (main
          (stub_parser 5 \<lparr>statInfo = - 4, mapIrInfo = [''Emiss'' \<mapsto> 95], vecTempArray = []\<rparr>)
          9 2 [''sample.exe'', ''x.jpg''] ())))"
  using main_output_function_of_status
    [of "stub_parser 5 \<lparr>statInfo = 21, mapIrInfo = Map.empty, vecTempArray = [[20, 22]]\<rparr>"
        0 "()"
        "stub_parser 5 \<lparr>statInfo = - 4, mapIrInfo = [''Emiss'' \<mapsto> 95], vecTempArray = []\<rparr>"
        9 "()" 1 "[''sample.exe'']" 2 "[''sample.exe'', ''x.jpg'']"]
  by (simp add: stub_parser_def)

text \<open>
  C10. Whatever status \<open>rc\<close> the call of the library function returns, negative
  values included, the driver makes exactly one write to standard output, and it is
  one of the two lines: the output is the success line if and only if \<open>rc\<close> is 0,
  and the failure line if and only if \<open>rc\<close> is not 0.
\<close>

theorem main_prints_exactly_one_message:
  assumes "fst (P ''../test/IRX_0001_south.jpg'' 640 512
                  \<lparr>statInfo = uninit, mapIrInfo = Map.empty, vecTempArray = []\<rparr> w) = rc"
  shows "length (filter is_Stdout (events (snd (main P uninit argc argv w)))) = 1
       \<and> (stdout_of (events (snd (main P uninit argc argv w)))
            = ''parse ok.'' @ [CHR 0x0D, CHR 0x0A]) = (rc = 0)
       \<and> (stdout_of (events (snd (main P uninit argc argv w)))
            = ''parse fail.'' @ [CHR 0x0D, CHR 0x0A]) = (rc \<noteq> 0)"
  using assms by (auto simp add: main_unfold)

theorem main_prints_exactly_one_message_witness:
  "sint (- 1 :: c_int) < 0
   \<and> fst (stub_parser (- 1) \<lparr>statInfo = 21, mapIrInfo = Map.empty, vecTempArray = [[20, 22]]\<rparr>
          ''../test/IRX_0001_south.jpg'' 640 512
          \<lparr>statInfo = 0, mapIrInfo = Map.empty, vecTempArray = []\<rparr> ()) = - 1
   \<and> stdout_of (events (snd (main
          (stub_parser (- 1) \<lparr>statInfo = 21, mapIrInfo = Map.empty, vecTempArray = [[20, 22]]\<rparr>)
          0 1 [''sample.exe''] ())))
       = ''parse fail.'' @ [CHR 0x0D, CHR 0x0A]
   \<and> stdout_of (events (snd (main
          (stub_parser (- 1) \<lparr>statInfo = 21, mapIrInfo = Map.empty, vecTempArray = [[20, 22]]\<rparr>)
          0 1 [''sample.exe''] ())))
       \<noteq> ''parse ok.'' @ [CHR 0x0D, CHR 0x0A]"
  using main_prints_exactly_one_message
    [of "stub_parser (- 1) \<lparr>statInfo = 21, mapIrInfo = Map.empty, vecTempArray = [[20, 22]]\<rparr>"
        0 "()" "- 1" 1 "[''sample.exe'']"]
  by (simp add: stub_parser_def)

end
